theory Spec2Isabelle
  imports Main "HOL-Library.Sublist"
begin

section \<open>JavaScript values used by the two generators\<close>

text \<open>
  A JavaScript number that holds a non-negative integer (the pixel sizes of the
  definition tables) is a \<open>nat\<close>; inside a template literal it prints in decimal.
\<close>

function show_nat :: "nat \<Rightarrow> string" where
  "show_nat n =
     (if n < 10 then [''0123456789'' ! n]
      else show_nat (n div 10) @ [''0123456789'' ! (n mod 10)])"
  by pat_completeness auto
termination
  by (relation "measure id") auto

declare show_nat.simps [simp del]

text \<open>
  A manifest field is a string or is missing (\<open>None\<close>, JavaScript's \<open>undefined\<close>).
  \<open>js_template\<close> is the conversion a template literal applies to such a value.
\<close>

definition js_template :: "string option \<Rightarrow> string" where
  "js_template v = (case v of None \<Rightarrow> ''undefined'' | Some s \<Rightarrow> s)"

text \<open>
  \<open>String.prototype.trim\<close> on strings of 8-bit code units: white space and line
  terminators below 256 are TAB, LF, VT, FF, CR, SP and NBSP.
\<close>

definition js_space :: "char \<Rightarrow> bool" where
  "js_space c = (c \<in> set [CHR 0x09, CHR 0x0A, CHR 0x0B, CHR 0x0C, CHR 0x0D, CHR 0x20, CHR 0xA0])"

definition js_trim :: "string \<Rightarrow> string" where
  "js_trim s = rev (dropWhile js_space (rev (dropWhile js_space s)))"

section \<open>Manifest, settings and build options\<close>

text \<open>
  Modelled from the spec: the shape of the manifest that \<open>loadManifest\<close> returns
  (the module \<open>./manifest\<close> is not part of the sources at hand) and of the entries
  of the definition tables. The manifest has a \<open>pwa\<close> object with \<open>name\<close>,
  \<open>short_name\<close>, \<open>background_color\<close>, \<open>display\<close> and an \<open>ios\<close> object with
  \<open>statusBarStyle\<close> and \<open>showInstallBanner\<close>; an icon definition is
  \<open>{target, w, h}\<close>, a splash screen definition adds \<open>dw\<close>, \<open>dh\<close> and \<open>dd\<close>; the
  build options hold an optional integer \<open>indentSize\<close>. A field is \<open>None\<close> when it
  is missing.
\<close>

record ios_manifest =
  statusBarStyle :: "string option"
  showInstallBanner :: "bool option"

record pwa_manifest =
  name :: "string option"
  short_name :: "string option"
  background_color :: "string option"
  display :: "string option"
  ios :: ios_manifest

record manifest =
  pwa :: pwa_manifest

record image_def =
  target :: string
  w :: nat
  h :: nat

record splashscreen_def = image_def +
  dw :: nat
  dh :: nat
  dd :: nat

text \<open>
  The module \<open>./settings\<close> is not part of the sources at hand: its two tables and its
  two URL constants are parameters of the model.
\<close>

record settings =
  AppIconDefs :: "image_def list"
  SplashscreenDefs :: "splashscreen_def list"
  InstallBannerJSURL :: string
  InstallBannerCSSURL :: string

record build_options =
  indentSize :: "int option"

section \<open>Effects and failures\<close>

text \<open>
  The collaborators \<open>./support\<close> and \<open>./manifest\<close> are not part of the sources at
  hand. Every awaited call on them is an effect; a run is the list of its effects, in
  order, with its outcome. A probe records the answer it got. An awaited operation that
  rejects ends the run with that rejection. Reading an identifier that the module
  neither declares nor imports throws a \<open>ReferenceError\<close>, which ends the run too.
\<close>

datatype effect =
    LoadManifest string
  | Probe string bool
  | Rmrf string
  | EnsureDir string
  | Cp string string
  | Exec string "string option list"

datatype error = LoadFailure string | Rejected effect | ReferenceError string

type_synonym 'a io = "effect list \<times> (error + 'a)"

definition io_return :: "'a \<Rightarrow> 'a io" where
  "io_return x = ([], Inr x)"

definition io_bind :: "'a io \<Rightarrow> ('a \<Rightarrow> 'b io) \<Rightarrow> 'b io" where
  "io_bind m f =
     (case m of
        (t, Inl e) \<Rightarrow> (t, Inl e)
      | (t, Inr x) \<Rightarrow> (case f x of (t', r) \<Rightarrow> (t @ t', r)))"

text \<open>
  \<open>exists\<close> answers a probe; \<open>fulfils\<close> says whether an awaited \<open>rmrf\<close>,
  \<open>ensureDir\<close> or \<open>cp\<close> call fulfils or rejects;
  \<open>loadManifest\<close> returns the manifest or fails.
\<close>

record support =
  exists :: "string \<Rightarrow> bool"
  fulfils :: "effect \<Rightarrow> bool"
  loadManifest :: "build_options \<Rightarrow> string \<Rightarrow> error + manifest"

definition perform :: "support \<Rightarrow> effect \<Rightarrow> unit io" where
  "perform F e = ([e], if fulfils F e then Inr () else Inl (Rejected e))"

definition reference_error :: "string \<Rightarrow> 'a io" where
  "reference_error identifier = ([], Inl (ReferenceError identifier))"

section \<open>lib/make-html-header.js\<close>

definition IOSAppIconDefs :: "settings \<Rightarrow> image_def list" where
  "IOSAppIconDefs S = filter (\<lambda>d. target d = ''ios'') (AppIconDefs S)"

definition IOSSplashscreenDefs :: "settings \<Rightarrow> splashscreen_def list" where
  "IOSSplashscreenDefs S = filter (\<lambda>d. target d = ''ios'') (SplashscreenDefs S)"

definition getIconDefs :: "settings \<Rightarrow> build_options \<Rightarrow> image_def list" where
  "getIconDefs S opts = IOSAppIconDefs S"

definition getSplashscreenDefs :: "settings \<Rightarrow> build_options \<Rightarrow> splashscreen_def list" where
  "getSplashscreenDefs S opts = IOSSplashscreenDefs S"

definition getWebAppCapable :: "pwa_manifest \<Rightarrow> string" where
  "getWebAppCapable p = (if display p = Some ''fullscreen'' then ''yes'' else ''no'')"

definition getStatusBarStyle :: "pwa_manifest \<Rightarrow> string" where
  "getStatusBarStyle p =
     (let display = display p; statusBarStyle = statusBarStyle (ios p) in
      case (case statusBarStyle of
              Some s \<Rightarrow>
                if s = ''default'' \<or> s = ''black'' \<or> s = ''black-translucent''
                then Some s else None
            | None \<Rightarrow> None) of
        Some returned \<Rightarrow> returned
      | None \<Rightarrow>
          if display = Some ''fullscreen'' then ''black-translucent''
          else ''default'')"

text \<open>
  The printer is a closure over \<open>indent\<close>, \<open>trim\<close> and the mutable \<open>result\<close>;
  \<open>print\<close> returns the printer with the new result.
\<close>

record printer =
  indent :: string
  trim :: bool
  result :: string

definition getPrinter :: "build_options \<Rightarrow> printer" where
  "getPrinter opts =
     \<lparr> indent = replicate (case indentSize opts of Some n \<Rightarrow> nat n | None \<Rightarrow> 4) CHR '' '',
       trim = (indentSize opts = Some 0),
       result = [] \<rparr>"

definition print_line :: "printer \<Rightarrow> string \<Rightarrow> printer" where
  "print_line p line =
     (let r1 = result p @ indent p;
          line1 = (if trim p then js_trim line else line);
          r2 = r1 @ line1;
          r3 = r2 @ [CHR 0x0A]
      in p\<lparr>result := r3\<rparr>)"

definition print :: "printer \<Rightarrow> string list \<Rightarrow> printer" where
  "print p arguments =
     (if length arguments = 0 then p\<lparr>result := result p @ [CHR 0x0A]\<rparr>
      else foldl print_line p arguments)"

definition icon_link :: "image_def \<Rightarrow> string" where
  \<open>icon_link d =
     ''<link rel="apple-touch-icon" sizes="'' @ show_nat (w d) @ ''x'' @ show_nat (h d)
       @ ''" href="pwa/appicon/'' @ show_nat (w d) @ ''x'' @ show_nat (h d) @ ''.png" />''\<close>

definition splashscreen_link :: "splashscreen_def \<Rightarrow> string list" where
  \<open>splashscreen_link d =
     [''<link rel="apple-touch-startup-image"'',
      ''    href="pwa/splashscreen/'' @ show_nat (w d) @ ''x'' @ show_nat (h d) @ ''.png"'',
      ''    media="(device-width: '' @ show_nat (dw d) @ ''px) and (device-height: ''
        @ show_nat (dh d) @ ''px) and (-webkit-device-pixel-ratio: '' @ show_nat (dd d)
        @ '')" />'']\<close>

definition stylesheet_link :: "settings \<Rightarrow> string" where
  \<open>stylesheet_link S = ''<link rel="stylesheet" href="'' @ InstallBannerCSSURL S @ ''" />''\<close>

definition script_tag :: "settings \<Rightarrow> string" where
  \<open>script_tag S = ''<script src="'' @ InstallBannerJSURL S @ ''"></script>''\<close>

text \<open>
  \<open>make\<close>: \<open>header_body\<close> is what follows the loading of the manifest,
  \<open>header_make\<close> the whole function; a manifest that fails to load fails the call.
\<close>

definition header_body :: "settings \<Rightarrow> build_options \<Rightarrow> pwa_manifest \<Rightarrow> string" where
  \<open>header_body S opts P =
     (let p = getPrinter opts;
          p = print p [''<meta charset="utf-8" />''];
          p = print p [''<meta name="viewport" content="width=device-width, initial-scale=1, shrink-to-fit=no" />''];
          p = print p [''<meta name="theme-color" content="'' @ js_template (background_color P) @ ''" />''];
          p = print p [];
          p = print p [''<title>'' @ js_template (name P) @ ''</title>''];
          p = print p [];
          p = print p [''<link rel="manifest" href="manifest.webmanifest" />''];
          p = print p [];
          icons = getIconDefs S opts;
          p = foldl (\<lambda>p d. print p [icon_link d]) p icons;
          p = print p [];
          splashscreens = getSplashscreenDefs S opts;
          p = foldl (\<lambda>p d. print p (splashscreen_link d)) p splashscreens;
          p = print p [];
          p = print p [''<meta name="apple-mobile-web-app-title" content="'' @ js_template (short_name P) @ ''" />''];
          p = print p [''<meta name="apple-mobile-web-app-capable" content="'' @ getWebAppCapable P @ ''" />''];
          p = print p [''<meta name="apple-mobile-web-app-status-bar-style" content="'' @ getStatusBarStyle P @ ''" />''];
          p = (if showInstallBanner (ios P) = Some True
               then (let p = print p [];
                         p = print p [stylesheet_link S];
                         p = print p [script_tag S]
                     in p)
               else p)
      in result p)\<close>

definition header_make ::
  "settings \<Rightarrow> support \<Rightarrow> build_options \<Rightarrow> string \<Rightarrow> error + string" where
  "header_make S F opts source =
     (case loadManifest F opts source of
        Inl e \<Rightarrow> Inl e
      | Inr m \<Rightarrow> Inr (header_body S opts (pwa m)))"

section \<open>Node's \<open>path\<close> module (POSIX)\<close>

fun split_slash :: "string \<Rightarrow> string list" where
  "split_slash [] = [[]]"
| "split_slash (c # cs) =
     (if c = CHR ''/'' then [] # split_slash cs
      else (case split_slash cs of [] \<Rightarrow> [[c]] | s # ss \<Rightarrow> (c # s) # ss))"

fun join_slash :: "string list \<Rightarrow> string" where
  "join_slash [] = []"
| "join_slash [s] = s"
| "join_slash (s # t # ss) = s @ ''/'' @ join_slash (t # ss)"

text \<open>
  \<open>normalizeString\<close>: empty and \<open>.\<close> segments vanish, \<open>..\<close> removes the segment
  before it, and stays only where a relative path climbs above its start.
\<close>

fun normalizeString :: "bool \<Rightarrow> string list \<Rightarrow> string list \<Rightarrow> string list" where
  "normalizeString allowAboveRoot res [] = res"
| "normalizeString allowAboveRoot res (s # ss) =
     (if s = [] \<or> s = ''.'' then normalizeString allowAboveRoot res ss
      else if s = ''..'' then
        (if res \<noteq> [] \<and> last res \<noteq> ''..'' then normalizeString allowAboveRoot (butlast res) ss
         else if allowAboveRoot then normalizeString allowAboveRoot (res @ [''..'']) ss
         else normalizeString allowAboveRoot res ss)
      else normalizeString allowAboveRoot (res @ [s]) ss)"

definition path_normalize :: "string \<Rightarrow> string" where
  "path_normalize path =
     (if path = [] then ''.''
      else
        (let isAbsolute = (hd path = CHR ''/'');
             trailingSeparator = (last path = CHR ''/'');
             p = join_slash (normalizeString (\<not> isAbsolute) [] (split_slash path))
         in if p = [] then (if isAbsolute then ''/'' else if trailingSeparator then ''./'' else ''.'')
            else (let p = (if trailingSeparator then p @ ''/'' else p)
                  in if isAbsolute then CHR ''/'' # p else p)))"

definition path_join :: "string \<Rightarrow> string \<Rightarrow> string" where
  "path_join a b =
     (let args = filter (\<lambda>arg. length arg > 0) [a, b]
      in if args = [] then ''.'' else path_normalize (join_slash args))"

text \<open>
  \<open>dirname\<close> scans from the last character down to index 1; \<open>dirname_end\<close> is
  that scan, started at \<open>i\<close>: the index of the slash that ends the directory part.
\<close>

fun dirname_end :: "string \<Rightarrow> nat \<Rightarrow> bool \<Rightarrow> nat option" where
  "dirname_end path 0 matchedSlash = None"
| "dirname_end path (Suc i) matchedSlash =
     (if path ! Suc i = CHR ''/'' then
        (if \<not> matchedSlash then Some (Suc i) else dirname_end path i matchedSlash)
      else dirname_end path i False)"

definition path_dirname :: "string \<Rightarrow> string" where
  "path_dirname path =
     (if path = [] then ''.''
      else
        (let hasRoot = (hd path = CHR ''/'') in
         case dirname_end path (length path - 1) True of
           None \<Rightarrow> (if hasRoot then ''/'' else ''.'')
         | Some e \<Rightarrow> (if hasRoot \<and> e = 1 then ''//'' else take e path)))"

section \<open>The image generator\<close>

definition SourceImagePath :: string where "SourceImagePath = ''_pwa''"
definition TargetImagePath :: string where "TargetImagePath = ''pwa''"
definition BaseAppIconName :: string where "BaseAppIconName = ''appicon''"
definition BaseStdSplashscreenName :: string where "BaseStdSplashscreenName = ''splashscreen''"
definition BaseIOSSplashscreenName :: string where "BaseIOSSplashscreenName = ''ios/splashscreen''"

text \<open>\<open>module_dirname\<close> is the module's \<open>__dirname\<close>.\<close>

record module_env =
  module_dirname :: string

definition DefaultBaseAppIconPath :: "module_env \<Rightarrow> string" where
  "DefaultBaseAppIconPath M = path_join (path_dirname (module_dirname M)) ''assets/appicon.png''"

text \<open>The loop of \<open>findFileMatch\<close> over the extensions; \<open>Some\<close> is its early return.\<close>

fun findFileMatch_exts :: "support \<Rightarrow> string \<Rightarrow> string list \<Rightarrow> effect list \<times> string option" where
  "findFileMatch_exts F path [] = ([], None)"
| "findFileMatch_exts F path (ext # exts) =
     (let filePath = path @ ''.'' @ ext in
      if exists F filePath then ([Probe filePath True], Some filePath)
      else (case findFileMatch_exts F path exts of (t, r) \<Rightarrow> (Probe filePath False # t, r)))"

text \<open>
  \<open>defaultPath\<close> is a string or is not supplied; \<open>defaultPath && ...\<close> is false for a
  default that is not supplied and for the empty string, and then nothing is probed.
\<close>

definition findFileMatch ::
  "support \<Rightarrow> string \<Rightarrow> string \<Rightarrow> string list \<Rightarrow> string option \<Rightarrow> (string option) io" where
  "findFileMatch F basePath path exts defaultPath =
     (case findFileMatch_exts F path exts of
        (t, Some filePath) \<Rightarrow> (t, Inr (Some filePath))
      | (t, None) \<Rightarrow>
          (case defaultPath of
             None \<Rightarrow> (t, Inr None)
           | Some d \<Rightarrow>
               if d = [] then (t, Inr None)
               else if exists F d then (t @ [Probe d True], Inr (Some d))
               else (t @ [Probe d False], Inr None)))"

text \<open>
  \<open>scaleImage\<close> builds the argument list and then reads \<open>exec\<close>, which the module
  neither declares nor imports: the call throws before any process is started.
\<close>

definition scaleImage ::
  "support \<Rightarrow> string option \<Rightarrow> string \<Rightarrow> nat \<Rightarrow> nat \<Rightarrow> string option \<Rightarrow> unit io" where
  "scaleImage F source target' width height bgColor =
     (let bgColor = (case bgColor of None \<Rightarrow> ''black'' | Some c \<Rightarrow> c);
          args = [
            source,
            Some ''-resize'', Some (show_nat width @ ''x'' @ show_nat height @ ''^''),
            Some ''-background'', Some bgColor,
            Some ''-compose'', Some ''Copy'',
            Some ''-gravity'', Some ''center'',
            Some ''-extent'', Some (show_nat width @ ''x'' @ show_nat height),
            Some target' ]
      in io_bind (reference_error ''exec'') (\<lambda>exec :: unit.
           perform F (Exec ''convert'' args)))"

text \<open>One turn of the loop of \<open>buildImages\<close>. What it writes to the console is left out.\<close>

definition buildImage ::
  "support \<Rightarrow> string \<Rightarrow> string option \<Rightarrow> 'a image_def_scheme \<Rightarrow> string list \<Rightarrow> string
     \<Rightarrow> string option \<Rightarrow> unit io" where
  "buildImage F sourcePath baseImagePath d exts targetPath bgColor =
     (let imagePath = target d @ ''/'' @ show_nat (w d) @ ''x'' @ show_nat (h d);
          targetImagePath = path_join targetPath imagePath
      in io_bind (perform F (EnsureDir (path_dirname targetImagePath))) (\<lambda>_.
         io_bind (findFileMatch F sourcePath imagePath exts None) (\<lambda>existingImagePath.
           case existingImagePath of
             None \<Rightarrow> scaleImage F baseImagePath targetImagePath (w d) (h d) bgColor
           | Some e \<Rightarrow>
               if e = [] then scaleImage F baseImagePath targetImagePath (w d) (h d) bgColor
               else perform F (Cp e targetImagePath))))"

fun buildImages ::
  "support \<Rightarrow> string \<Rightarrow> string option \<Rightarrow> 'a image_def_scheme list \<Rightarrow> string list \<Rightarrow> string
     \<Rightarrow> string option \<Rightarrow> unit io" where
  "buildImages F sourcePath baseImagePath [] exts targetPath bgColor = io_return ()"
| "buildImages F sourcePath baseImagePath (d # imageDefs) exts targetPath bgColor =
     io_bind (buildImage F sourcePath baseImagePath d exts targetPath bgColor) (\<lambda>_.
       buildImages F sourcePath baseImagePath imageDefs exts targetPath bgColor)"

text \<open>
  \<open>make\<close> of the image generator. After the icons it reads
  \<open>DefaultStdSplashscreenPath\<close>, which the module neither declares nor imports: the
  argument list of the second \<open>findFileMatch\<close> call throws before the call is made.
\<close>

definition images_make ::
  "settings \<Rightarrow> module_env \<Rightarrow> support \<Rightarrow> build_options \<Rightarrow> string \<Rightarrow> string \<Rightarrow> unit io" where
  "images_make S M F opts source target' =
     io_bind ([LoadManifest source], loadManifest F opts source) (\<lambda>m.
       let background_color = background_color (pwa m);
           sourcePath = path_join source SourceImagePath;
           targetPath = path_join target' TargetImagePath
       in
       io_bind (perform F (Rmrf targetPath)) (\<lambda>_.
       io_bind (findFileMatch F sourcePath BaseAppIconName [''png'', ''svg'']
                  (Some (DefaultBaseAppIconPath M))) (\<lambda>baseAppIconPath.
       io_bind (buildImages F sourcePath baseAppIconPath (AppIconDefs S) [''png'', ''svg'']
                  targetPath background_color) (\<lambda>_.
       io_bind (reference_error ''DefaultStdSplashscreenPath'') (\<lambda>DefaultStdSplashscreenPath.
       io_bind (findFileMatch F sourcePath BaseStdSplashscreenName [''png'', ''svg'']
                  DefaultStdSplashscreenPath) (\<lambda>baseStdSplashscreenPath.
       io_bind (buildImages F sourcePath baseStdSplashscreenPath
                  (filter (\<lambda>d. target d = ''std'') (SplashscreenDefs S)) [''png'', ''svg'']
                  targetPath background_color) (\<lambda>_.
       io_bind (findFileMatch F sourcePath BaseIOSSplashscreenName [''png'']
                  baseStdSplashscreenPath) (\<lambda>baseIosSplashscreenPath.
       buildImages F sourcePath baseIosSplashscreenPath
         (filter (\<lambda>d. target d = ''ios'') (SplashscreenDefs S)) [''png'']
         targetPath background_color))))))))"

section \<open>Vocabulary of the properties\<close>

text \<open>
  The lines a \<open>print\<close> call appends (each is followed by a line feed), the text a
  list of lines makes, and the whole sequence of \<open>print\<close> calls of \<open>make\<close>.
\<close>

definition call_lines :: "string \<Rightarrow> bool \<Rightarrow> string list \<Rightarrow> string list" where
  "call_lines i t arguments =
     (if arguments = [] then [[]]
      else map (\<lambda>line. i @ (if t then js_trim line else line)) arguments)"

definition render_lines :: "string list \<Rightarrow> string" where
  "render_lines ls = concat (map (\<lambda>l. l @ [CHR 0x0A]) ls)"

definition header_calls :: "settings \<Rightarrow> pwa_manifest \<Rightarrow> string list list" where
  \<open>header_calls S P =
     [[''<meta charset="utf-8" />''],
      [''<meta name="viewport" content="width=device-width, initial-scale=1, shrink-to-fit=no" />''],
      [''<meta name="theme-color" content="'' @ js_template (background_color P) @ ''" />''],
      [],
      [''<title>'' @ js_template (name P) @ ''</title>''],
      [],
      [''<link rel="manifest" href="manifest.webmanifest" />''],
      []]
     @ map (\<lambda>d. [icon_link d]) (IOSAppIconDefs S)
     @ [[]]
     @ map splashscreen_link (IOSSplashscreenDefs S)
     @ [[],
        [''<meta name="apple-mobile-web-app-title" content="'' @ js_template (short_name P) @ ''" />''],
        [''<meta name="apple-mobile-web-app-capable" content="'' @ getWebAppCapable P @ ''" />''],
        [''<meta name="apple-mobile-web-app-status-bar-style" content="'' @ getStatusBarStyle P @ ''" />'']]
     @ (if showInstallBanner (ios P) = Some True
        then [[], [stylesheet_link S], [script_tag S]] else [])\<close>

definition header_lines :: "settings \<Rightarrow> build_options \<Rightarrow> pwa_manifest \<Rightarrow> string list" where
  "header_lines S opts P =
     concat (map (call_lines (indent (getPrinter opts)) (trim (getPrinter opts))) (header_calls S P))"

text \<open>The manifest of the specification's end-to-end scenario, and inputs around it.\<close>

definition demo_pwa :: pwa_manifest where
  "demo_pwa =
     \<lparr> name = Some ''Demo'', short_name = Some ''Demo'', background_color = Some ''#fff'',
       display = Some ''standalone'',
       ios = \<lparr> statusBarStyle = Some ''black'', showInstallBanner = Some False \<rparr> \<rparr>"

definition demo_settings :: settings where
  "demo_settings =
     \<lparr> AppIconDefs = [\<lparr>target = ''ios'', w = 120, h = 120\<rparr>, \<lparr>target = ''std'', w = 48, h = 48\<rparr>],
       SplashscreenDefs =
         [\<lparr>target = ''ios'', w = 640, h = 1136, dw = 320, dh = 568, dd = 2\<rparr>,
          \<lparr>target = ''std'', w = 1024, h = 768, dw = 512, dh = 384, dd = 2\<rparr>],
       InstallBannerJSURL = ''install-banner.js'',
       InstallBannerCSSURL = ''install-banner.css'' \<rparr>"

definition demo_support :: support where
  "demo_support =
     \<lparr> exists = (\<lambda>p. False), fulfils = (\<lambda>e. True),
       loadManifest = (\<lambda>opts source. Inr \<lparr>pwa = demo_pwa\<rparr>) \<rparr>"

definition demo_env :: module_env where
  "demo_env = \<lparr> module_dirname = ''/app/lib'' \<rparr>"

text \<open>
  The lines of a text (the pieces between line feeds) and the number of spaces a line
  begins with.
\<close>

fun lines_of :: "string \<Rightarrow> string list" where
  "lines_of [] = [[]]"
| "lines_of (c # cs) =
     (if c = CHR 0x0A then [] # lines_of cs
      else (case lines_of cs of [] \<Rightarrow> [[c]] | l # ls \<Rightarrow> (c # l) # ls))"

definition leading_spaces :: "string \<Rightarrow> nat" where
  "leading_spaces l = length (takeWhile (\<lambda>c. c = CHR '' '') l)"

text \<open>
  Two strings diverge when neither is a prefix of the other. A text is free of banner
  tags when what follows each of its \<open><\<close> diverges from the first characters of the
  style sheet link and of the script tag.
\<close>

definition diverge :: "string \<Rightarrow> string \<Rightarrow> bool" where
  "diverge a b = (\<not> prefix a b \<and> \<not> prefix b a)"

fun banner_free :: "string \<Rightarrow> bool" where
  \<open>banner_free [] = True\<close>
| \<open>banner_free (c # cs) =
     ((c = CHR ''<'' \<longrightarrow> diverge cs ''link rel="s'' \<and> diverge cs ''s'') \<and> banner_free cs)\<close>


section \<open>The printer and the header as a list of lines\<close>

lemma print_line_fields [simp]:
  "indent (print_line p l) = indent p" "trim (print_line p l) = trim p"
  "result (print_line p l) = result p @ indent p @ (if trim p then js_trim l else l) @ [CHR 0x0A]"
  by (simp_all add: print_line_def Let_def)

lemma foldl_print_line:
  "indent (foldl print_line p ls) = indent p \<and> trim (foldl print_line p ls) = trim p
   \<and> result (foldl print_line p ls)
       = result p @ render_lines (map (\<lambda>line. indent p @ (if trim p then js_trim line else line)) ls)"
  by (induction ls arbitrary: p) (simp_all add: render_lines_def)

lemma print_fields [simp]:
  "indent (print p a) = indent p" "trim (print p a) = trim p"
  "result (print p a) = result p @ render_lines (call_lines (indent p) (trim p) a)"
  by (simp_all add: print_def call_lines_def foldl_print_line) (simp add: render_lines_def)

lemma render_lines_append [simp]: "render_lines (a @ b) = render_lines a @ render_lines b"
  by (simp add: render_lines_def)

lemma foldl_print:
  "indent (foldl print p cs) = indent p \<and> trim (foldl print p cs) = trim p
   \<and> result (foldl print p cs)
       = result p @ render_lines (concat (map (call_lines (indent p) (trim p)) cs))"
  by (induction cs arbitrary: p) (simp_all add: render_lines_def)

lemma foldl_print_map: "foldl (\<lambda>p d. print p (f d)) p ds = foldl print p (map f ds)"
  by (induction ds arbitrary: p) simp_all


lemma header_body_foldl:
  "header_body S opts P = result (foldl print (getPrinter opts) (header_calls S P))"
proof (cases "showInstallBanner (ios P) = Some True")
  case True
  then show ?thesis
    unfolding header_body_def header_calls_def Let_def getIconDefs_def getSplashscreenDefs_def
      foldl_print_map [of "\<lambda>d. [icon_link d]"] foldl_print_map [of splashscreen_link]
    by (simp only: foldl_append foldl_Cons foldl_Nil if_True simp_thms)
next
  case False
  then show ?thesis
    unfolding header_body_def header_calls_def Let_def getIconDefs_def getSplashscreenDefs_def
      foldl_print_map [of "\<lambda>d. [icon_link d]"] foldl_print_map [of splashscreen_link]
    by (simp only: foldl_append foldl_Cons foldl_Nil if_False simp_thms)
qed

lemma header_body_lines: "header_body S opts P = render_lines (header_lines S opts P)"
  by (simp add: header_body_foldl foldl_print header_lines_def) (simp add: getPrinter_def)


lemma dropWhile_hd_id: "s \<noteq> [] \<Longrightarrow> \<not> Q (hd s) \<Longrightarrow> dropWhile Q s = s"
  by (cases s) simp_all

lemma js_trim_id: "s \<noteq> [] \<Longrightarrow> \<not> js_space (hd s) \<Longrightarrow> \<not> js_space (last s) \<Longrightarrow> js_trim s = s"
proof -
  assume s: "s \<noteq> []" and h: "\<not> js_space (hd s)" and l: "\<not> js_space (last s)"
  from s h have 1: "dropWhile js_space s = s" by (rule dropWhile_hd_id)
  from s l have "rev s \<noteq> []" "\<not> js_space (hd (rev s))" by (simp_all add: hd_rev)
  then have 2: "dropWhile js_space (rev s) = rev s" by (rule dropWhile_hd_id)
  show ?thesis by (simp add: js_trim_def 1 2)
qed

lemma sublist_render_lines: "l \<in> set ls \<Longrightarrow> sublist l (render_lines ls)"
proof -
  assume "l \<in> set ls"
  then obtain pre post where "ls = pre @ l # post" by (auto dest: split_list)
  then have "render_lines ls = render_lines pre @ l @ ([CHR 0x0A] @ render_lines post)"
    by (simp add: render_lines_def)
  then show ?thesis unfolding sublist_def by blast
qed

lemma js_space_angle: "\<not> js_space CHR ''<''" "\<not> js_space CHR ''>''"
  by (simp_all add: js_space_def)

lemma call_lines_single:
  "s \<noteq> [] \<Longrightarrow> \<not> js_space (hd s) \<Longrightarrow> \<not> js_space (last s) \<Longrightarrow> call_lines i t [s] = [i @ s]"
  by (simp add: call_lines_def js_trim_id)

lemma header_line_sublist:
  assumes "[s] \<in> set (header_calls S P)" "s \<noteq> []" "\<not> js_space (hd s)" "\<not> js_space (last s)"
  shows "sublist s (header_body S opts P)"
proof -
  define i where "i = indent (getPrinter opts)"
  define t where "t = trim (getPrinter opts)"
  have "i @ s \<in> set (call_lines i t [s])"
    using assms(2-4) by (simp add: call_lines_single)
  with assms(1) have "i @ s \<in> set (header_lines S opts P)"
    unfolding header_lines_def i_def t_def set_concat set_map by blast
  then have "sublist (i @ s) (header_body S opts P)"
    by (simp only: header_body_lines sublist_render_lines)
  then obtain ps ss where "header_body S opts P = ps @ (i @ s) @ ss"
    unfolding sublist_def by blast
  then have "header_body S opts P = (ps @ i) @ s @ ss" by simp
  then show ?thesis unfolding sublist_def by blast
qed

section \<open>File-match resolution\<close>

lemma findFileMatch_exts_none:
  "\<forall>x\<in>set exts. \<not> exists F (path @ ''.'' @ x) \<Longrightarrow> snd (findFileMatch_exts F path exts) = None"
  by (induction exts) (auto simp add: Let_def split: prod.splits)

lemma findFileMatch_exts_first:
  "\<forall>x\<in>set pre. \<not> exists F (path @ ''.'' @ x) \<Longrightarrow> exists F (path @ ''.'' @ e)
   \<Longrightarrow> snd (findFileMatch_exts F path (pre @ e # post)) = Some (path @ ''.'' @ e)"
  by (induction pre) (auto simp add: Let_def split: prod.splits)

lemma findFileMatch_exts_some:
  "findFileMatch_exts F path exts = (t, Some p)
   \<Longrightarrow> (\<exists>e\<in>set exts. p = path @ ''.'' @ e) \<and> exists F p \<and> t \<noteq> [] \<and> last t = Probe p True"
proof (induction exts arbitrary: t)
  case Nil
  then show ?case by simp
next
  case (Cons e exts)
  show ?case
  proof (cases "exists F (path @ ''.'' @ e)")
    case True
    with Cons.prems show ?thesis by (auto simp add: Let_def)
  next
    case False
    with Cons.prems obtain t' where t': "findFileMatch_exts F path exts = (t', Some p)"
      and t: "t = Probe (path @ ''.'' @ e) False # t'"
      by (auto simp add: Let_def split: prod.splits)
    from Cons.IH [OF t'] t show ?thesis by auto
  qed
qed


text \<open>
  C3. The resolution returns \<open>path.ext\<close> for the first listed extension whose probe
  succeeds; when no listed extension matches it returns the default path, if one is
  supplied (a non-empty string) and its probe succeeds; in every other case it returns
  no match. The base path has no part in the answer.
\<close>

theorem findFileMatch_resolution:
  "(exts = pre @ e # post \<and> (\<forall>x\<in>set pre. \<not> exists F (path @ ''.'' @ x)) \<and> exists F (path @ ''.'' @ e)
      \<longrightarrow> snd (findFileMatch F basePath path exts defaultPath) = Inr (Some (path @ ''.'' @ e)))
   \<and> ((\<forall>x\<in>set exts. \<not> exists F (path @ ''.'' @ x)) \<and> defaultPath = Some d \<and> d \<noteq> [] \<and> exists F d
      \<longrightarrow> snd (findFileMatch F basePath path exts defaultPath) = Inr (Some d))
   \<and> ((\<forall>x\<in>set exts. \<not> exists F (path @ ''.'' @ x))
       \<and> (defaultPath = None \<or> defaultPath = Some [] \<or> (\<exists>d'. defaultPath = Some d' \<and> \<not> exists F d'))
      \<longrightarrow> snd (findFileMatch F basePath path exts defaultPath) = Inr None)"
proof (intro conjI impI)
  assume a: "exts = pre @ e # post \<and> (\<forall>x\<in>set pre. \<not> exists F (path @ ''.'' @ x)) \<and> exists F (path @ ''.'' @ e)"
  then have "snd (findFileMatch_exts F path exts) = Some (path @ ''.'' @ e)"
    using findFileMatch_exts_first by blast
  then show "snd (findFileMatch F basePath path exts defaultPath) = Inr (Some (path @ ''.'' @ e))"
    by (cases "findFileMatch_exts F path exts") (simp add: findFileMatch_def)
next
  assume a: "(\<forall>x\<in>set exts. \<not> exists F (path @ ''.'' @ x)) \<and> defaultPath = Some d \<and> d \<noteq> [] \<and> exists F d"
  then have "snd (findFileMatch_exts F path exts) = None"
    using findFileMatch_exts_none by blast
  with a show "snd (findFileMatch F basePath path exts defaultPath) = Inr (Some d)"
    by (cases "findFileMatch_exts F path exts") (simp add: findFileMatch_def)
next
  assume a: "(\<forall>x\<in>set exts. \<not> exists F (path @ ''.'' @ x))
       \<and> (defaultPath = None \<or> defaultPath = Some [] \<or> (\<exists>d'. defaultPath = Some d' \<and> \<not> exists F d'))"
  then have "snd (findFileMatch_exts F path exts) = None"
    using findFileMatch_exts_none by blast
  with a show "snd (findFileMatch F basePath path exts defaultPath) = Inr None"
    by (cases "findFileMatch_exts F path exts") (auto simp add: findFileMatch_def)
qed


theorem findFileMatch_resolution_witness:
  "snd (findFileMatch (demo_support\<lparr>exists := (\<lambda>p. p = ''appicon.png'' \<or> p = ''appicon.svg'' \<or> p = ''assets/splashscreen.png'')\<rparr>)
          ''src/_pwa'' ''appicon'' [''png'', ''svg''] None) = Inr (Some ''appicon.png'')
   \<and> snd (findFileMatch (demo_support\<lparr>exists := (\<lambda>p. p = ''appicon.png'' \<or> p = ''appicon.svg'' \<or> p = ''assets/splashscreen.png'')\<rparr>)
          ''src/_pwa'' ''splashscreen'' [''png'', ''svg''] (Some ''assets/splashscreen.png''))
       = Inr (Some ''assets/splashscreen.png'')
   \<and> snd (findFileMatch (demo_support\<lparr>exists := (\<lambda>p. p = ''appicon.png'' \<or> p = ''appicon.svg'' \<or> p = ''assets/splashscreen.png'')\<rparr>)
          ''src/_pwa'' ''ios/splashscreen'' [''png''] None) = Inr None"
  using
    findFileMatch_resolution [where exts = "[''png'', ''svg'']" and pre = "[]" and e = "''png''"
      and post = "[''svg'']" and path = "''appicon'' " and basePath = "''src/_pwa''"
      and defaultPath = None
      and F = "demo_support\<lparr>exists := (\<lambda>p. p = ''appicon.png'' \<or> p = ''appicon.svg'' \<or> p = ''assets/splashscreen.png'')\<rparr>"]
    findFileMatch_resolution [where exts = "[''png'', ''svg'']" and path = "''splashscreen''"
      and basePath = "''src/_pwa''" and d = "''assets/splashscreen.png''"
      and defaultPath = "Some ''assets/splashscreen.png''"
      and F = "demo_support\<lparr>exists := (\<lambda>p. p = ''appicon.png'' \<or> p = ''appicon.svg'' \<or> p = ''assets/splashscreen.png'')\<rparr>"]
    findFileMatch_resolution [where exts = "[''png'']" and path = "''ios/splashscreen''"
      and basePath = "''src/_pwa''" and defaultPath = None
      and F = "demo_support\<lparr>exists := (\<lambda>p. p = ''appicon.png'' \<or> p = ''appicon.svg'' \<or> p = ''assets/splashscreen.png'')\<rparr>"]
  by (simp add: Let_def)


text \<open>
  C9. A path the resolution returns was probed with success in that call: it is
  \<open>path.ext\<close> for a listed extension or the supplied default, the probe answers
  true for it, and that successful probe is the last effect of the call.
\<close>

theorem findFileMatch_returns_probed:
  assumes "findFileMatch F basePath path exts defaultPath = (t, Inr (Some p))"
  shows "exists F p \<and> ((\<exists>e\<in>set exts. p = path @ ''.'' @ e) \<or> defaultPath = Some p)
         \<and> t \<noteq> [] \<and> last t = Probe p True"
proof (cases "findFileMatch_exts F path exts")
  case (Pair t0 r)
  show ?thesis
  proof (cases r)
    case None
    with Pair assms show ?thesis
      by (auto simp add: findFileMatch_def split: if_splits option.splits)
  next
    case (Some q)
    with Pair assms have "q = p" "t0 = t" by (auto simp add: findFileMatch_def)
    with Pair Some findFileMatch_exts_some [of F path exts t p] show ?thesis by auto
  qed
qed


theorem findFileMatch_returns_probed_witness:
  "findFileMatch (demo_support\<lparr>exists := (\<lambda>p. p = ''appicon.svg'')\<rparr>)
       ''src/_pwa'' ''appicon'' [''png'', ''svg''] None
     = ([Probe ''appicon.png'' False, Probe ''appicon.svg'' True], Inr (Some ''appicon.svg''))
   \<and> exists (demo_support\<lparr>exists := (\<lambda>p. p = ''appicon.svg'')\<rparr>) ''appicon.svg''
   \<and> last [Probe ''appicon.png'' False, Probe ''appicon.svg'' True] = Probe ''appicon.svg'' True"
proof -
  have run: "findFileMatch (demo_support\<lparr>exists := (\<lambda>p. p = ''appicon.svg'')\<rparr>)
       ''src/_pwa'' ''appicon'' [''png'', ''svg''] None
     = ([Probe ''appicon.png'' False, Probe ''appicon.svg'' True], Inr (Some ''appicon.svg''))"
    by (simp add: findFileMatch_def Let_def)
  from findFileMatch_returns_probed [OF run] run show ?thesis by simp
qed


section \<open>The status bar style\<close>

text \<open>
  C2. The status bar style is the manifest's \<open>statusBarStyle\<close> when that is one of
  \<open>default\<close>, \<open>black\<close>, \<open>black-translucent\<close>; for every other value, and for a
  missing one, it is \<open>black-translucent\<close> when \<open>display\<close> is \<open>fullscreen\<close> and
  \<open>default\<close> otherwise. The header holds the meta tag with that value.
\<close>

theorem status_bar_style:
  assumes "loadManifest F opts source = Inr m"
  shows \<open>(\<forall>s. statusBarStyle (ios (pwa m)) = Some s
              \<and> s \<in> {''default'', ''black'', ''black-translucent''}
            \<longrightarrow> getStatusBarStyle (pwa m) = s)
   \<and> ((\<forall>s. statusBarStyle (ios (pwa m)) = Some s
              \<longrightarrow> s \<notin> {''default'', ''black'', ''black-translucent''})
        \<longrightarrow> getStatusBarStyle (pwa m)
            = (if display (pwa m) = Some ''fullscreen'' then ''black-translucent'' else ''default''))
   \<and> (\<exists>out. header_make S F opts source = Inr out
         \<and> sublist (''<meta name="apple-mobile-web-app-status-bar-style" content="''
                       @ getStatusBarStyle (pwa m) @ ''" />'') out)\<close>
proof (intro conjI)
  show "\<forall>s. statusBarStyle (ios (pwa m)) = Some s
              \<and> s \<in> {''default'', ''black'', ''black-translucent''}
            \<longrightarrow> getStatusBarStyle (pwa m) = s"
    by (auto simp add: getStatusBarStyle_def Let_def)
  show "(\<forall>s. statusBarStyle (ios (pwa m)) = Some s
              \<longrightarrow> s \<notin> {''default'', ''black'', ''black-translucent''})
        \<longrightarrow> getStatusBarStyle (pwa m)
            = (if display (pwa m) = Some ''fullscreen'' then ''black-translucent'' else ''default'')"
    by (auto simp add: getStatusBarStyle_def Let_def split: option.splits)
  have \<open>sublist (''<meta name="apple-mobile-web-app-status-bar-style" content="''
                       @ getStatusBarStyle (pwa m) @ ''" />'') (header_body S opts (pwa m))\<close>
    by (rule header_line_sublist) (simp_all add: header_calls_def js_space_angle)
  with assms show \<open>\<exists>out. header_make S F opts source = Inr out
         \<and> sublist (''<meta name="apple-mobile-web-app-status-bar-style" content="''
                       @ getStatusBarStyle (pwa m) @ ''" />'') out\<close>
    by (simp add: header_make_def)
qed


theorem status_bar_style_witness:
  \<open>loadManifest demo_support \<lparr>indentSize = None\<rparr> ''src'' = Inr \<lparr>pwa = demo_pwa\<rparr>
   \<and> getStatusBarStyle demo_pwa = ''black''
   \<and> (\<exists>out. header_make demo_settings demo_support \<lparr>indentSize = None\<rparr> ''src'' = Inr out
         \<and> sublist ''<meta name="apple-mobile-web-app-status-bar-style" content="black" />'' out)\<close>
proof -
  have h: "loadManifest demo_support \<lparr>indentSize = None\<rparr> ''src'' = Inr \<lparr>pwa = demo_pwa\<rparr>"
    by (simp add: demo_support_def)
  have v: "getStatusBarStyle demo_pwa = ''black''"
    by (simp add: getStatusBarStyle_def demo_pwa_def)
  show ?thesis
    using h v status_bar_style [OF h, of demo_settings]
    by simp
qed

section \<open>Runs of the image generator\<close>

lemma fst_io_bind:
  "fst (io_bind m f) = fst m @ (case snd m of Inl e \<Rightarrow> [] | Inr x \<Rightarrow> fst (f x))"
  by (cases m) (auto simp add: io_bind_def split: sum.splits prod.splits)

text \<open>
  Scaling never starts a process, and no run of \<open>make\<close> fulfils: the latest it
  ends is where it reads \<open>DefaultStdSplashscreenPath\<close>.
\<close>

lemma snd_io_bind:
  "snd (io_bind m f) = (case snd m of Inl e \<Rightarrow> Inl e | Inr x \<Rightarrow> snd (f x))"
  by (cases m) (auto simp add: io_bind_def split: sum.splits prod.splits)

lemma scaleImage_throws:
  "scaleImage F source target' width height bgColor = ([], Inl (ReferenceError ''exec''))"
  by (simp add: scaleImage_def Let_def io_bind_def reference_error_def)

lemma images_make_never_fulfils: "snd (images_make S M F opts source target') \<noteq> Inr ()"
  by (simp add: images_make_def Let_def snd_io_bind reference_error_def split: sum.splits)


text \<open>
  C7. In every run of the image generator, whatever the manifest holds and whatever
  the probes answer, nothing but the manifest load comes before the removal of the
  target image directory: once the manifest is loaded the removal is the next effect,
  before any directory is made and any image is copied or scaled; when the manifest
  cannot be loaded the run ends there, and touches nothing.
\<close>

theorem rmrf_first:
  "takeWhile (\<lambda>e. e \<noteq> Rmrf (path_join target' TargetImagePath))
       (fst (images_make S M F opts source target')) = [LoadManifest source]
   \<and> (\<forall>m. loadManifest F opts source = Inr m
        \<longrightarrow> (\<exists>rest. fst (images_make S M F opts source target')
               = LoadManifest source # Rmrf (path_join target' TargetImagePath) # rest))
   \<and> (\<forall>e. loadManifest F opts source = Inl e
        \<longrightarrow> images_make S M F opts source target' = ([LoadManifest source], Inl e))"
proof (cases "loadManifest F opts source")
  case (Inl e)
  then have "images_make S M F opts source target' = ([LoadManifest source], Inl e)"
    by (simp add: images_make_def io_bind_def)
  with Inl show ?thesis by simp
next
  case (Inr m)
  then obtain rest where "fst (images_make S M F opts source target')
      = LoadManifest source # Rmrf (path_join target' TargetImagePath) # rest"
    by (simp add: images_make_def Let_def fst_io_bind perform_def)
  with Inr show ?thesis by simp
qed


theorem rmrf_first_witness:
  "loadManifest demo_support \<lparr>indentSize = None\<rparr> ''src'' = Inr \<lparr>pwa = demo_pwa\<rparr>
   \<and> (\<exists>rest. fst (images_make demo_settings demo_env demo_support \<lparr>indentSize = None\<rparr> ''src'' ''out'')
         = LoadManifest ''src'' # Rmrf ''out/pwa'' # rest)
   \<and> images_make demo_settings demo_env
        (demo_support\<lparr>loadManifest := (\<lambda>opts source. Inl (LoadFailure ''no manifest''))\<rparr>)
        \<lparr>indentSize = None\<rparr> ''src'' ''out''
      = ([LoadManifest ''src''], Inl (LoadFailure ''no manifest''))"
proof -
  have h1: "loadManifest demo_support \<lparr>indentSize = None\<rparr> ''src'' = Inr \<lparr>pwa = demo_pwa\<rparr>"
    by (simp add: demo_support_def)
  have h2: "loadManifest (demo_support\<lparr>loadManifest := (\<lambda>opts source. Inl (LoadFailure ''no manifest''))\<rparr>)
      \<lparr>indentSize = None\<rparr> ''src'' = Inl (LoadFailure ''no manifest'')"
    by simp
  have tp: "path_join ''out'' TargetImagePath = ''out/pwa''"
    by (simp add: path_join_def path_normalize_def TargetImagePath_def)
  from rmrf_first [of "''out''" demo_settings demo_env demo_support "\<lparr>indentSize = None\<rparr>" "''src''"] h1
  have a: "\<exists>rest. fst (images_make demo_settings demo_env demo_support \<lparr>indentSize = None\<rparr> ''src'' ''out'')
         = LoadManifest ''src'' # Rmrf ''out/pwa'' # rest"
    by (simp only: tp)
  from rmrf_first [of "''out''" demo_settings demo_env
      "demo_support\<lparr>loadManifest := (\<lambda>opts source. Inl (LoadFailure ''no manifest''))\<rparr>"
      "\<lparr>indentSize = None\<rparr>" "''src''"] h2
  have b: "images_make demo_settings demo_env
        (demo_support\<lparr>loadManifest := (\<lambda>opts source. Inl (LoadFailure ''no manifest''))\<rparr>)
        \<lparr>indentSize = None\<rparr> ''src'' ''out''
      = ([LoadManifest ''src''], Inl (LoadFailure ''no manifest''))"
    by blast
  from h1 a b show ?thesis by blast
qed


section \<open>Where the images go, and which images are built\<close>

text \<open>
  C1. A run on one \<open>ios\<close> icon definition of 120 by 120 whose image is supplied
  ready-made (as \<open>ios/120x120.png\<close>, where the run looks for it), target root
  \<open>out\<close>: the icon is copied to \<open>out/pwa/ios/120x120\<close>, under the definition's target
  name and without extension, not to \<open>pwa/appicon/120x120.png\<close>, where the header
  links to. The run then ends in a \<open>ReferenceError\<close>, before any splash screen.
\<close>

theorem icon_copied_under_target_name:
  "images_make
       \<lparr>AppIconDefs = [\<lparr>target = ''ios'', w = 120, h = 120\<rparr>],
         SplashscreenDefs = [\<lparr>target = ''ios'', w = 640, h = 1136, dw = 320, dh = 568, dd = 2\<rparr>],
         InstallBannerJSURL = ''install-banner.js'', InstallBannerCSSURL = ''install-banner.css''\<rparr>
       \<lparr>module_dirname = ''/app/lib''\<rparr>
       \<lparr>exists = (\<lambda>p. p = ''ios/120x120.png'' \<or> p = ''/app/assets/appicon.png''),
         fulfils = (\<lambda>e. True),
         loadManifest = (\<lambda>opts source. Inr \<lparr>pwa = \<lparr>name = Some ''Demo'', short_name = Some ''Demo'',
           background_color = Some ''#fff'', display = Some ''standalone'',
           ios = \<lparr>statusBarStyle = Some ''black'', showInstallBanner = Some False\<rparr>\<rparr>\<rparr>)\<rparr>
       \<lparr>indentSize = None\<rparr> ''src'' ''out''
   = ([LoadManifest ''src'', Rmrf ''out/pwa'',
       Probe ''appicon.png'' False, Probe ''appicon.svg'' False,
       Probe ''/app/assets/appicon.png'' True,
       EnsureDir ''out/pwa/ios'',
       Probe ''ios/120x120.png'' True,
       Cp ''ios/120x120.png'' ''out/pwa/ios/120x120''],
      Inl (ReferenceError ''DefaultStdSplashscreenPath''))"
  by code_simp


text \<open>
  C4. A ready-made image \<open>src/_pwa/ios/120x120.png\<close> lies in the source tree of a run
  with source \<open>src\<close>. The run probes \<open>ios/120x120.png\<close> and \<open>ios/120x120.svg\<close>,
  without the source path, finds nothing and does not copy the image; it turns to
  scaling, which throws a \<open>ReferenceError\<close> at \<open>exec\<close> before any tool is called.
\<close>

theorem premade_image_in_source_tree_not_copied:
  "images_make
       \<lparr>AppIconDefs = [\<lparr>target = ''ios'', w = 120, h = 120\<rparr>],
         SplashscreenDefs = [],
         InstallBannerJSURL = ''install-banner.js'', InstallBannerCSSURL = ''install-banner.css''\<rparr>
       \<lparr>module_dirname = ''/app/lib''\<rparr>
       \<lparr>exists = (\<lambda>p. p = ''src/_pwa/ios/120x120.png'' \<or> p = ''/app/assets/appicon.png''),
         fulfils = (\<lambda>e. True),
         loadManifest = (\<lambda>opts source. Inr \<lparr>pwa = \<lparr>name = Some ''Demo'', short_name = Some ''Demo'',
           background_color = Some ''#fff'', display = Some ''standalone'',
           ios = \<lparr>statusBarStyle = Some ''black'', showInstallBanner = Some False\<rparr>\<rparr>\<rparr>)\<rparr>
       \<lparr>indentSize = None\<rparr> ''src'' ''out''
   = ([LoadManifest ''src'', Rmrf ''out/pwa'',
       Probe ''appicon.png'' False, Probe ''appicon.svg'' False,
       Probe ''/app/assets/appicon.png'' True,
       EnsureDir ''out/pwa/ios'',
       Probe ''ios/120x120.png'' False, Probe ''ios/120x120.svg'' False],
      Inl (ReferenceError ''exec''))"
  by code_simp


text \<open>
  C8. With an \<open>ios\<close> and a \<open>std\<close> icon definition and no ready-made image, the
  header links to the icon of the \<open>ios\<close> definition alone, and the image generator,
  which starts on the whole table, builds no icon at all: scaling the first entry
  throws a \<open>ReferenceError\<close> at \<open>exec\<close>, and the second entry is never reached.
\<close>

theorem header_links_icon_that_is_not_built:
  \<open>map_sum id (\<lambda>out. filter (sublist ''apple-touch-icon'') (lines_of out))
     (header_make
        \<lparr>AppIconDefs = [\<lparr>target = ''ios'', w = 120, h = 120\<rparr>, \<lparr>target = ''std'', w = 48, h = 48\<rparr>],
          SplashscreenDefs = [],
          InstallBannerJSURL = ''install-banner.js'', InstallBannerCSSURL = ''install-banner.css''\<rparr>
        \<lparr>exists = (\<lambda>p. p = ''/app/assets/appicon.png''), fulfils = (\<lambda>e. True),
          loadManifest = (\<lambda>opts source. Inr \<lparr>pwa = \<lparr>name = Some ''Demo'', short_name = Some ''Demo'',
            background_color = Some ''#fff'', display = Some ''standalone'',
            ios = \<lparr>statusBarStyle = Some ''black'', showInstallBanner = Some False\<rparr>\<rparr>\<rparr>)\<rparr>
        \<lparr>indentSize = None\<rparr> ''src'')
   = Inr [''    <link rel="apple-touch-icon" sizes="120x120" href="pwa/appicon/120x120.png" />'']
   \<and> images_make
        \<lparr>AppIconDefs = [\<lparr>target = ''ios'', w = 120, h = 120\<rparr>, \<lparr>target = ''std'', w = 48, h = 48\<rparr>],
          SplashscreenDefs = [],
          InstallBannerJSURL = ''install-banner.js'', InstallBannerCSSURL = ''install-banner.css''\<rparr>
        \<lparr>module_dirname = ''/app/lib''\<rparr>
        \<lparr>exists = (\<lambda>p. p = ''/app/assets/appicon.png''), fulfils = (\<lambda>e. True),
          loadManifest = (\<lambda>opts source. Inr \<lparr>pwa = \<lparr>name = Some ''Demo'', short_name = Some ''Demo'',
            background_color = Some ''#fff'', display = Some ''standalone'',
            ios = \<lparr>statusBarStyle = Some ''black'', showInstallBanner = Some False\<rparr>\<rparr>\<rparr>)\<rparr>
        \<lparr>indentSize = None\<rparr> ''src'' ''out''
     = ([LoadManifest ''src'', Rmrf ''out/pwa'',
         Probe ''appicon.png'' False, Probe ''appicon.svg'' False,
         Probe ''/app/assets/appicon.png'' True,
         EnsureDir ''out/pwa/ios'',
         Probe ''ios/120x120.png'' False, Probe ''ios/120x120.svg'' False],
        Inl (ReferenceError ''exec''))\<close>
  by code_simp


section \<open>The lines of the header\<close>

lemma lines_of_not_Nil: "lines_of s \<noteq> []"
  by (induction s) (auto split: list.splits)

lemma lines_of_line: "CHR 0x0A \<notin> set a \<Longrightarrow> lines_of (a @ CHR 0x0A # s) = a # lines_of s"
  by (induction a) (auto split: list.splits)

lemma lines_of_render_lines:
  "\<forall>l\<in>set ls. CHR 0x0A \<notin> set l \<Longrightarrow> lines_of (render_lines ls) = ls @ [[]]"
  by (induction ls) (simp_all add: render_lines_def lines_of_line)

lemma show_nat_digits: "set (show_nat n) \<subseteq> set ''0123456789''"
proof (induction n rule: show_nat.induct)
  case (1 n)
  have d: "''0123456789'' ! k \<in> set ''0123456789''" if "k < 10" for k
    using that by (intro nth_mem) simp
  show ?case
  proof (cases "n < 10")
    case True
    then show ?thesis using d [of n] by (subst show_nat.simps) simp
  next
    case False
    have "n mod 10 < 10" by simp
    with False 1 d [of "n mod 10"] show ?thesis by (subst show_nat.simps) simp
  qed
qed

lemma show_nat_no_newline [simp]: "CHR 0x0A \<notin> set (show_nat n)"
  using show_nat_digits [of n] by auto

lemma getWebAppCapable_no_newline [simp]: "CHR 0x0A \<notin> set (getWebAppCapable P)"
  by (simp add: getWebAppCapable_def)

lemma getStatusBarStyle_values:
  "getStatusBarStyle P \<in> {''default'', ''black'', ''black-translucent''}"
  by (auto simp add: getStatusBarStyle_def Let_def split: option.splits)

lemma getStatusBarStyle_no_newline [simp]: "CHR 0x0A \<notin> set (getStatusBarStyle P)"
  using getStatusBarStyle_values [of P] by auto

lemma content_no_newline:
  assumes "CHR 0x0A \<notin> set (js_template (name P))"
    and "CHR 0x0A \<notin> set (js_template (short_name P))"
    and "CHR 0x0A \<notin> set (js_template (background_color P))"
    and "showInstallBanner (ios P) = Some True
         \<longrightarrow> CHR 0x0A \<notin> set (InstallBannerCSSURL S) \<and> CHR 0x0A \<notin> set (InstallBannerJSURL S)"
    and "c \<in> set (concat (header_calls S P))"
  shows "CHR 0x0A \<notin> set c"
  using assms
  by (auto simp add: header_calls_def icon_link_def splashscreen_link_def stylesheet_link_def
      script_tag_def split: if_splits)

lemma content_cases:
  assumes "c \<in> set (concat (header_calls S P))"
  shows "(c \<noteq> [] \<and> hd c = CHR ''<'')
     \<or> (\<exists>d\<in>set (IOSSplashscreenDefs S). c = splashscreen_link d ! 1 \<or> c = splashscreen_link d ! 2)"
  using assms
  by (auto simp add: header_calls_def icon_link_def splashscreen_link_def stylesheet_link_def
      script_tag_def split: if_splits)


lemma header_lines_indent2:
  assumes "indentSize opts = Some 2" "l \<in> set (header_lines S opts P)"
  shows "l = [] \<or> (\<exists>c\<in>set (concat (header_calls S P)). l = ''  '' @ c)"
proof -
  have i: "indent (getPrinter opts) = ''  ''" and t: "\<not> trim (getPrinter opts)"
    using assms(1) by (simp_all add: getPrinter_def numeral_2_eq_2)
  from assms(2) obtain a where a: "a \<in> set (header_calls S P)"
    and l: "l \<in> set (call_lines ''  '' False a)"
    unfolding header_lines_def i using t by auto
  show ?thesis
  proof (cases "a = []")
    case True
    with l show ?thesis by (simp add: call_lines_def)
  next
    case False
    with l obtain c where "c \<in> set a" "l = ''  '' @ c" by (auto simp add: call_lines_def)
    with a show ?thesis by auto
  qed
qed

lemma leading_spaces_tag: "c \<noteq> [] \<Longrightarrow> hd c = CHR ''<'' \<Longrightarrow> leading_spaces (''  '' @ c) = 2"
  by (cases c) (simp_all add: leading_spaces_def)

lemma leading_spaces_continuation:
  "leading_spaces (''  '' @ splashscreen_link d ! 1) = 6"
  "leading_spaces (''  '' @ splashscreen_link d ! 2) = 6"
  by (simp_all add: leading_spaces_def splashscreen_link_def)


text \<open>
  C6 fails as stated: with an indent size of 2 and one \<open>ios\<close> splash screen
  definition, the \<open>href\<close> and \<open>media\<close> lines of its link begin with six spaces;
  and a line feed inside the manifest's name starts a line without indent.
\<close>

theorem header_indent_two_counterexample:
  "map_sum id (\<lambda>out. map leading_spaces (filter (\<lambda>l. l \<noteq> []) (lines_of out)))
     (header_make
        \<lparr>AppIconDefs = [],
          SplashscreenDefs = [\<lparr>target = ''ios'', w = 640, h = 1136, dw = 320, dh = 568, dd = 2\<rparr>],
          InstallBannerJSURL = ''install-banner.js'', InstallBannerCSSURL = ''install-banner.css''\<rparr>
        \<lparr>exists = (\<lambda>p. False), fulfils = (\<lambda>e. True),
          loadManifest = (\<lambda>opts source. Inr \<lparr>pwa = \<lparr>name = Some ''Demo'', short_name = Some ''Demo'',
            background_color = Some ''#fff'', display = Some ''standalone'',
            ios = \<lparr>statusBarStyle = Some ''black'', showInstallBanner = Some False\<rparr>\<rparr>\<rparr>)\<rparr>
        \<lparr>indentSize = Some 2\<rparr> ''src'')
   = Inr [2, 2, 2, 2, 2, 2, 6, 6, 2, 2, 2]
   \<and> map_sum id (\<lambda>out. map leading_spaces (filter (\<lambda>l. l \<noteq> []) (lines_of out)))
     (header_make
        \<lparr>AppIconDefs = [], SplashscreenDefs = [],
          InstallBannerJSURL = ''install-banner.js'', InstallBannerCSSURL = ''install-banner.css''\<rparr>
        \<lparr>exists = (\<lambda>p. False), fulfils = (\<lambda>e. True),
          loadManifest = (\<lambda>opts source. Inr \<lparr>pwa = \<lparr>name = Some [CHR ''A'', CHR 0x0A, CHR ''B''],
            short_name = Some ''Demo'',
            background_color = Some ''#fff'', display = Some ''standalone'',
            ios = \<lparr>statusBarStyle = Some ''black'', showInstallBanner = Some False\<rparr>\<rparr>\<rparr>)\<rparr>
        \<lparr>indentSize = Some 2\<rparr> ''src'')
   = Inr [2, 2, 2, 2, 0, 2, 2, 2, 2]"
  by code_simp


text \<open>
  C6, amended. With an indent size of 2, for a manifest whose name, short name and
  background colour hold no line feed (nor do the banner URLs when the banner is
  shown), every non-blank line of the header begins with exactly two spaces, except the
  \<open>href\<close> and \<open>media\<close> lines of each \<open>apple-touch-startup-image\<close> link, which
  begin with exactly six: the two of the indent and the four of their own.
\<close>

theorem header_indent_two:
  assumes "loadManifest F opts source = Inr m" and "indentSize opts = Some 2"
    and "CHR 0x0A \<notin> set (js_template (name (pwa m)))"
    and "CHR 0x0A \<notin> set (js_template (short_name (pwa m)))"
    and "CHR 0x0A \<notin> set (js_template (background_color (pwa m)))"
    and "showInstallBanner (ios (pwa m)) = Some True
         \<longrightarrow> CHR 0x0A \<notin> set (InstallBannerCSSURL S) \<and> CHR 0x0A \<notin> set (InstallBannerJSURL S)"
  shows "\<exists>out. header_make S F opts source = Inr out
    \<and> (\<forall>l\<in>set (lines_of out).
         l = [] \<or> leading_spaces l = 2
         \<or> (leading_spaces l = 6
             \<and> (\<exists>d\<in>set (IOSSplashscreenDefs S).
                   l = ''  '' @ splashscreen_link d ! 1 \<or> l = ''  '' @ splashscreen_link d ! 2)))"
proof -
  let ?P = "pwa m"
  have out: "header_make S F opts source = Inr (render_lines (header_lines S opts ?P))"
    using assms(1) by (simp add: header_make_def header_body_lines)
  have shape: "l = [] \<or> (\<exists>c\<in>set (concat (header_calls S ?P)). l = ''  '' @ c)"
    if "l \<in> set (header_lines S opts ?P)" for l
    using assms(2) that by (rule header_lines_indent2)
  have nl: "CHR 0x0A \<notin> set l" if "l \<in> set (header_lines S opts ?P)" for l
  proof -
    from shape [OF that] show ?thesis
    proof
      assume "l = []" then show ?thesis by simp
    next
      assume "\<exists>c\<in>set (concat (header_calls S ?P)). l = ''  '' @ c"
      then obtain c where c: "c \<in> set (concat (header_calls S ?P))" and l: "l = ''  '' @ c"
        by blast
      from content_no_newline [OF assms(3-6) c] l show ?thesis by simp
    qed
  qed
  then have lines: "lines_of (render_lines (header_lines S opts ?P)) = header_lines S opts ?P @ [[]]"
    by (intro lines_of_render_lines) blast
  have "l = [] \<or> leading_spaces l = 2
         \<or> (leading_spaces l = 6
             \<and> (\<exists>d\<in>set (IOSSplashscreenDefs S).
                   l = ''  '' @ splashscreen_link d ! 1 \<or> l = ''  '' @ splashscreen_link d ! 2))"
    if "l \<in> set (header_lines S opts ?P)" for l
  proof -
    from shape [OF that] show ?thesis
    proof
      assume "l = []" then show ?thesis by simp
    next
      assume "\<exists>c\<in>set (concat (header_calls S ?P)). l = ''  '' @ c"
      then obtain c where c: "c \<in> set (concat (header_calls S ?P))" and l: "l = ''  '' @ c"
        by blast
      from content_cases [OF c] show ?thesis
      proof
        assume "c \<noteq> [] \<and> hd c = CHR ''<''"
        then have "leading_spaces (''  '' @ c) = 2" using leading_spaces_tag by blast
        with l show ?thesis by blast
      next
        assume "\<exists>d\<in>set (IOSSplashscreenDefs S). c = splashscreen_link d ! 1 \<or> c = splashscreen_link d ! 2"
        then obtain d where d: "d \<in> set (IOSSplashscreenDefs S)"
          and cd: "c = splashscreen_link d ! 1 \<or> c = splashscreen_link d ! 2" by blast
        from cd l have "leading_spaces l = 6" using leading_spaces_continuation [of d] by auto
        with d cd l show ?thesis by blast
      qed
    qed
  qed
  with out lines show ?thesis by auto
qed


theorem header_indent_two_witness:
  "loadManifest demo_support \<lparr>indentSize = Some 2\<rparr> ''src'' = Inr \<lparr>pwa = demo_pwa\<rparr>
   \<and> indentSize \<lparr>indentSize = Some 2\<rparr> = Some 2
   \<and> CHR 0x0A \<notin> set (js_template (name demo_pwa))
   \<and> CHR 0x0A \<notin> set (js_template (short_name demo_pwa))
   \<and> CHR 0x0A \<notin> set (js_template (background_color demo_pwa))
   \<and> (\<exists>out. header_make demo_settings demo_support \<lparr>indentSize = Some 2\<rparr> ''src'' = Inr out
    \<and> (\<forall>l\<in>set (lines_of out).
         l = [] \<or> leading_spaces l = 2
         \<or> (leading_spaces l = 6
             \<and> (\<exists>d\<in>set (IOSSplashscreenDefs demo_settings).
                   l = ''  '' @ splashscreen_link d ! 1 \<or> l = ''  '' @ splashscreen_link d ! 2))))"
proof -
  have h1: "loadManifest demo_support \<lparr>indentSize = Some 2\<rparr> ''src'' = Inr \<lparr>pwa = demo_pwa\<rparr>"
    by (simp add: demo_support_def)
  have h2: "indentSize \<lparr>indentSize = Some 2\<rparr> = Some 2" by simp
  have h3: "CHR 0x0A \<notin> set (js_template (name (pwa \<lparr>pwa = demo_pwa\<rparr>)))"
    by (simp add: demo_pwa_def js_template_def)
  have h4: "CHR 0x0A \<notin> set (js_template (short_name (pwa \<lparr>pwa = demo_pwa\<rparr>)))"
    by (simp add: demo_pwa_def js_template_def)
  have h5: "CHR 0x0A \<notin> set (js_template (background_color (pwa \<lparr>pwa = demo_pwa\<rparr>)))"
    by (simp add: demo_pwa_def js_template_def)
  have h6: "showInstallBanner (ios (pwa \<lparr>pwa = demo_pwa\<rparr>)) = Some True
         \<longrightarrow> CHR 0x0A \<notin> set (InstallBannerCSSURL demo_settings)
           \<and> CHR 0x0A \<notin> set (InstallBannerJSURL demo_settings)"
    by (simp add: demo_pwa_def)
  from header_indent_two [OF h1 h2 h3 h4 h5 h6] h1 h2 h3 h4 h5 show ?thesis by simp
qed


section \<open>The install banner\<close>

lemma diverge_append: "diverge a b \<Longrightarrow> diverge (a @ x) b"
  unfolding diverge_def by (metis prefix_append prefix_order.dual_order.trans prefixI)

lemma banner_free_append: "banner_free a \<Longrightarrow> banner_free b \<Longrightarrow> banner_free (a @ b)"
  by (induction a) (auto simp add: diverge_append)

lemma banner_free_no_lt: "CHR ''<'' \<notin> set s \<Longrightarrow> banner_free s"
  by (induction s) auto

lemma banner_free_concat: "\<forall>x\<in>set xs. banner_free x \<Longrightarrow> banner_free (concat xs)"
  by (induction xs) (auto simp add: banner_free_append)

lemma banner_free_mid:
  \<open>banner_free (ps @ CHR ''<'' # rest) \<Longrightarrow> diverge rest ''link rel="s'' \<and> diverge rest ''s''\<close>
  by (induction ps) auto

lemma banner_free_not_sublist:
  assumes "banner_free s" and \<open>prefix ''link rel="s'' r \<or> prefix ''s'' r\<close>
  shows "\<not> sublist (CHR ''<'' # r) s"
proof
  assume "sublist (CHR ''<'' # r) s"
  then obtain ps ss where "s = ps @ CHR ''<'' # (r @ ss)" unfolding sublist_def by auto
  with assms(1) have \<open>diverge (r @ ss) ''link rel="s'' \<and> diverge (r @ ss) ''s''\<close>
    using banner_free_mid by blast
  with assms(2) show False unfolding diverge_def by (auto simp add: prefix_def)
qed


lemma show_nat_no_lt [simp]: "CHR ''<'' \<notin> set (show_nat n)"
  using show_nat_digits [of n] by auto

lemma getWebAppCapable_no_lt [simp]: "CHR ''<'' \<notin> set (getWebAppCapable P)"
  by (simp add: getWebAppCapable_def)

lemma getStatusBarStyle_no_lt [simp]: "CHR ''<'' \<notin> set (getStatusBarStyle P)"
  using getStatusBarStyle_values [of P] by auto

lemma banner_free_tail [simp]:
  "CHR ''<'' \<notin> set a \<Longrightarrow> banner_free b \<Longrightarrow> banner_free (a @ b)"
  by (simp add: banner_free_append banner_free_no_lt)

lemma content_banner_free:
  assumes "CHR ''<'' \<notin> set (js_template (name P))"
    and "CHR ''<'' \<notin> set (js_template (short_name P))"
    and "CHR ''<'' \<notin> set (js_template (background_color P))"
    and "showInstallBanner (ios P) \<noteq> Some True"
    and "c \<in> set (concat (header_calls S P))"
  shows "banner_free c"
  using assms
  by (auto simp add: header_calls_def icon_link_def splashscreen_link_def diverge_def
      banner_free_no_lt split: if_splits)

lemma header_lines_default:
  assumes "indentSize opts = None" "l \<in> set (header_lines S opts P)"
  shows "l = [] \<or> (\<exists>c\<in>set (concat (header_calls S P)). l = ''    '' @ c)"
proof -
  have i: "indent (getPrinter opts) = ''    ''" and t: "\<not> trim (getPrinter opts)"
    using assms(1) by (simp_all add: getPrinter_def numeral_eq_Suc)
  from assms(2) obtain a where a: "a \<in> set (header_calls S P)"
    and l: "l \<in> set (call_lines ''    '' False a)"
    unfolding header_lines_def i using t by auto
  show ?thesis
  proof (cases "a = []")
    case True
    with l show ?thesis by (simp add: call_lines_def)
  next
    case False
    with l obtain c where "c \<in> set a" "l = ''    '' @ c" by (auto simp add: call_lines_def)
    with a show ?thesis by auto
  qed
qed

lemma banner_free_render_lines:
  "\<forall>l\<in>set ls. banner_free l \<Longrightarrow> banner_free (render_lines ls)"
  by (induction ls) (auto simp add: render_lines_def intro!: banner_free_append)

lemma header_banner_free:
  assumes "indentSize opts = None"
    and "CHR ''<'' \<notin> set (js_template (name P))"
    and "CHR ''<'' \<notin> set (js_template (short_name P))"
    and "CHR ''<'' \<notin> set (js_template (background_color P))"
    and "showInstallBanner (ios P) \<noteq> Some True"
  shows "banner_free (header_body S opts P)"
proof -
  have "banner_free l" if "l \<in> set (header_lines S opts P)" for l
  proof -
    from header_lines_default [OF assms(1) that] show ?thesis
    proof
      assume "l = []" then show ?thesis by simp
    next
      assume "\<exists>c\<in>set (concat (header_calls S P)). l = ''    '' @ c"
      then obtain c where c: "c \<in> set (concat (header_calls S P))" and l: "l = ''    '' @ c"
        by blast
      from content_banner_free [OF assms(2-5) c] have "banner_free (''    '' @ c)"
        by (intro banner_free_append) simp_all
      with l show ?thesis by simp
    qed
  qed
  then have "\<forall>l\<in>set (header_lines S opts P). banner_free l" by blast
  then show ?thesis unfolding header_body_lines by (rule banner_free_render_lines)
qed


text \<open>
  C5 fails as stated: the header copies the manifest's name into the title unescaped,
  so a name that holds the two tags makes them appear with \<open>showInstallBanner\<close> false.
\<close>

theorem install_banner_tags_counterexample:
  \<open>map_sum id
     (\<lambda>out. (sublist ''<link rel="stylesheet" href="install-banner.css" />'' out,
             sublist ''<script src="install-banner.js"></script>'' out))
     (header_make
        \<lparr>AppIconDefs = [], SplashscreenDefs = [],
          InstallBannerJSURL = ''install-banner.js'', InstallBannerCSSURL = ''install-banner.css''\<rparr>
        \<lparr>exists = (\<lambda>p. False), fulfils = (\<lambda>e. True),
          loadManifest = (\<lambda>opts source. Inr \<lparr>pwa = \<lparr>
            name = Some ''</title><link rel="stylesheet" href="install-banner.css" /><script src="install-banner.js"></script><title>'',
            short_name = Some ''Demo'', background_color = Some ''#fff'',
            display = Some ''standalone'',
            ios = \<lparr>statusBarStyle = Some ''black'', showInstallBanner = Some False\<rparr>\<rparr>\<rparr>)\<rparr>
        \<lparr>indentSize = None\<rparr> ''src'')
   = Inr (True, True)
   \<and> stylesheet_link \<lparr>AppIconDefs = [], SplashscreenDefs = [],
          InstallBannerJSURL = ''install-banner.js'', InstallBannerCSSURL = ''install-banner.css''\<rparr>
       = ''<link rel="stylesheet" href="install-banner.css" />''
   \<and> script_tag \<lparr>AppIconDefs = [], SplashscreenDefs = [],
          InstallBannerJSURL = ''install-banner.js'', InstallBannerCSSURL = ''install-banner.css''\<rparr>
       = ''<script src="install-banner.js"></script>''\<close>
  by code_simp


text \<open>
  C5, amended. With the default build options, when \<open>showInstallBanner\<close> is true the
  header holds the style sheet link and the script tag of the install banner; when it
  is not, and the manifest's name, short name and background colour hold no \<open><\<close>,
  the header holds neither.
\<close>

theorem install_banner_tags:
  assumes "loadManifest F opts source = Inr m" and "indentSize opts = None"
  shows "\<exists>out. header_make S F opts source = Inr out
    \<and> (showInstallBanner (ios (pwa m)) = Some True
         \<longrightarrow> sublist (stylesheet_link S) out \<and> sublist (script_tag S) out)
    \<and> (showInstallBanner (ios (pwa m)) \<noteq> Some True
         \<and> CHR ''<'' \<notin> set (js_template (name (pwa m)))
         \<and> CHR ''<'' \<notin> set (js_template (short_name (pwa m)))
         \<and> CHR ''<'' \<notin> set (js_template (background_color (pwa m)))
         \<longrightarrow> \<not> sublist (stylesheet_link S) out \<and> \<not> sublist (script_tag S) out)"
proof -
  let ?P = "pwa m"
  let ?out = "header_body S opts ?P"
  have out: "header_make S F opts source = Inr ?out"
    using assms(1) by (simp add: header_make_def)
  have pos: "sublist (stylesheet_link S) ?out \<and> sublist (script_tag S) ?out"
    if "showInstallBanner (ios ?P) = Some True"
  proof
    show "sublist (stylesheet_link S) ?out"
      using that
      by (intro header_line_sublist) (simp_all add: header_calls_def stylesheet_link_def js_space_angle)
    show "sublist (script_tag S) ?out"
      using that
      by (intro header_line_sublist) (simp_all add: header_calls_def script_tag_def js_space_angle)
  qed
  have neg: "\<not> sublist (stylesheet_link S) ?out \<and> \<not> sublist (script_tag S) ?out"
    if "showInstallBanner (ios ?P) \<noteq> Some True"
      and "CHR ''<'' \<notin> set (js_template (name ?P))"
      and "CHR ''<'' \<notin> set (js_template (short_name ?P))"
      and "CHR ''<'' \<notin> set (js_template (background_color ?P))"
  proof -
    have bf: "banner_free ?out"
      using assms(2) that(2-4) that(1) by (rule header_banner_free)
    have \<open>\<not> sublist (CHR ''<'' # (''link rel="stylesheet" href="'' @ InstallBannerCSSURL S @ ''" />'')) ?out\<close>
      using bf by (rule banner_free_not_sublist) simp
    moreover have \<open>\<not> sublist (CHR ''<'' # (''script src="'' @ InstallBannerJSURL S @ ''"></script>'')) ?out\<close>
      using bf by (rule banner_free_not_sublist) simp
    ultimately show ?thesis by (simp add: stylesheet_link_def script_tag_def)
  qed
  from out pos neg show ?thesis by blast
qed


theorem install_banner_tags_witness:
  "loadManifest demo_support \<lparr>indentSize = None\<rparr> ''src'' = Inr \<lparr>pwa = demo_pwa\<rparr>
   \<and> indentSize \<lparr>indentSize = None\<rparr> = None
   \<and> showInstallBanner (ios demo_pwa) \<noteq> Some True
   \<and> CHR ''<'' \<notin> set (js_template (name demo_pwa))
   \<and> CHR ''<'' \<notin> set (js_template (short_name demo_pwa))
   \<and> CHR ''<'' \<notin> set (js_template (background_color demo_pwa))
   \<and> (\<exists>out. header_make demo_settings demo_support \<lparr>indentSize = None\<rparr> ''src'' = Inr out
         \<and> \<not> sublist (stylesheet_link demo_settings) out
         \<and> \<not> sublist (script_tag demo_settings) out)
   \<and> (\<exists>out. header_make demo_settings
           (demo_support\<lparr>loadManifest := (\<lambda>opts source.
              Inr \<lparr>pwa = demo_pwa\<lparr>ios := \<lparr>statusBarStyle = None, showInstallBanner = Some True\<rparr>\<rparr>\<rparr>)\<rparr>)
           \<lparr>indentSize = None\<rparr> ''src'' = Inr out
         \<and> sublist (stylesheet_link demo_settings) out
         \<and> sublist (script_tag demo_settings) out)"
proof -
  have h1: "loadManifest demo_support \<lparr>indentSize = None\<rparr> ''src'' = Inr \<lparr>pwa = demo_pwa\<rparr>"
    by (simp add: demo_support_def)
  have h2: "indentSize \<lparr>indentSize = None\<rparr> = None" by simp
  have h3: "showInstallBanner (ios demo_pwa) \<noteq> Some True"
    and h4: "CHR ''<'' \<notin> set (js_template (name demo_pwa))"
    and h5: "CHR ''<'' \<notin> set (js_template (short_name demo_pwa))"
    and h6: "CHR ''<'' \<notin> set (js_template (background_color demo_pwa))"
    by (simp_all add: demo_pwa_def js_template_def)
  have k1: "loadManifest (demo_support\<lparr>loadManifest := (\<lambda>opts source.
              Inr \<lparr>pwa = demo_pwa\<lparr>ios := \<lparr>statusBarStyle = None, showInstallBanner = Some True\<rparr>\<rparr>\<rparr>)\<rparr>)
        \<lparr>indentSize = None\<rparr> ''src''
      = Inr \<lparr>pwa = demo_pwa\<lparr>ios := \<lparr>statusBarStyle = None, showInstallBanner = Some True\<rparr>\<rparr>\<rparr>"
    by simp
  from install_banner_tags [OF h1 h2, of demo_settings] h3 h4 h5 h6
  have a: "\<exists>out. header_make demo_settings demo_support \<lparr>indentSize = None\<rparr> ''src'' = Inr out
         \<and> \<not> sublist (stylesheet_link demo_settings) out
         \<and> \<not> sublist (script_tag demo_settings) out"
    by auto
  from install_banner_tags [OF k1 h2, of demo_settings]
  have b: "\<exists>out. header_make demo_settings
           (demo_support\<lparr>loadManifest := (\<lambda>opts source.
              Inr \<lparr>pwa = demo_pwa\<lparr>ios := \<lparr>statusBarStyle = None, showInstallBanner = Some True\<rparr>\<rparr>\<rparr>)\<rparr>)
           \<lparr>indentSize = None\<rparr> ''src'' = Inr out
         \<and> sublist (stylesheet_link demo_settings) out
         \<and> sublist (script_tag demo_settings) out"
    by auto
  from h1 h2 h3 h4 h5 h6 a b show ?thesis by blast
qed

section \<open>Blank separators\<close>

lemma dropWhile_keeps: "x \<in> set xs \<Longrightarrow> \<not> Q x \<Longrightarrow> x \<in> set (dropWhile Q xs)"
  by (induction xs) auto

lemma js_trim_keeps: "x \<in> set c \<Longrightarrow> \<not> js_space x \<Longrightarrow> x \<in> set (js_trim c)"
  by (simp add: js_trim_def dropWhile_keeps)

lemma content_not_blank:
  assumes "c \<in> set (concat (header_calls S P))"
  shows "\<exists>x\<in>set c. \<not> js_space x"
  using content_cases [OF assms]
proof
  assume "c \<noteq> [] \<and> hd c = CHR ''<''"
  then have "CHR ''<'' \<in> set c" by (metis hd_in_set)
  then show ?thesis using js_space_angle(1) by blast
next
  assume "\<exists>d\<in>set (IOSSplashscreenDefs S). c = splashscreen_link d ! 1 \<or> c = splashscreen_link d ! 2"
  then have "CHR ''='' \<in> set c" by (auto simp add: splashscreen_link_def)
  moreover have "\<not> js_space CHR ''=''" by (simp add: js_space_def)
  ultimately show ?thesis by blast
qed

lemma header_line_not_blank:
  assumes "l \<in> set (header_lines S opts P)"
  shows "l = [] \<or> (\<exists>x\<in>set l. \<not> js_space x)"
proof -
  from assms obtain a where a: "a \<in> set (header_calls S P)"
    and l: "l \<in> set (call_lines (indent (getPrinter opts)) (trim (getPrinter opts)) a)"
    unfolding header_lines_def by auto
  show ?thesis
  proof (cases "a = []")
    case True
    with l show ?thesis by (simp add: call_lines_def)
  next
    case False
    with l obtain c where c: "c \<in> set a"
      and lc: "l = indent (getPrinter opts) @ (if trim (getPrinter opts) then js_trim c else c)"
      by (auto simp add: call_lines_def)
    from a c have "c \<in> set (concat (header_calls S P))" by auto
    then obtain x where "x \<in> set c" "\<not> js_space x" using content_not_blank by blast
    then have "x \<in> set (if trim (getPrinter opts) then js_trim c else c)"
      by (simp add: js_trim_keeps)
    with lc \<open>\<not> js_space x\<close> show ?thesis by auto
  qed
qed


text \<open>
  C10. For every indent size, the default included, and whatever has been printed so
  far, a \<open>print\<close> call without arguments appends one line feed and nothing else:
  no indent and no other white space. The header is the text of the lines \<open>make\<close>
  prints, and each of these lines that holds nothing but white space is empty.
\<close>

theorem print_blank:
  "print ((getPrinter opts)\<lparr>result := r\<rparr>) [] = (getPrinter opts)\<lparr>result := r @ [CHR 0x0A]\<rparr>
   \<and> header_body S opts P = render_lines (header_lines S opts P)
   \<and> (\<forall>l\<in>set (header_lines S opts P). (\<forall>c\<in>set l. js_space c) \<longrightarrow> l = [])"
proof (intro conjI ballI impI)
  show "print ((getPrinter opts)\<lparr>result := r\<rparr>) [] = (getPrinter opts)\<lparr>result := r @ [CHR 0x0A]\<rparr>"
    by (simp add: print_def)
  show "header_body S opts P = render_lines (header_lines S opts P)"
    by (rule header_body_lines)
  fix l assume "l \<in> set (header_lines S opts P)" "\<forall>c\<in>set l. js_space c"
  then show "l = []" using header_line_not_blank by blast
qed

theorem print_blank_witness:
  "[] \<in> set (header_lines demo_settings \<lparr>indentSize = Some 2\<rparr> demo_pwa)
   \<and> list_all js_space []
   \<and> ''  <title>Demo</title>'' \<in> set (header_lines demo_settings \<lparr>indentSize = Some 2\<rparr> demo_pwa)
   \<and> \<not> list_all js_space ''  <title>Demo</title>''
   \<and> header_body demo_settings \<lparr>indentSize = Some 2\<rparr> demo_pwa
       = render_lines (header_lines demo_settings \<lparr>indentSize = Some 2\<rparr> demo_pwa)"
proof -
  have a: "[] \<in> set (header_lines demo_settings \<lparr>indentSize = Some 2\<rparr> demo_pwa)"
    by code_simp
  have b: "''  <title>Demo</title>'' \<in> set (header_lines demo_settings \<lparr>indentSize = Some 2\<rparr> demo_pwa)"
    by code_simp
  have c: "\<not> list_all js_space ''  <title>Demo</title>''"
    by (simp add: js_space_def)
  from print_blank [where opts = "\<lparr>indentSize = Some 2\<rparr>" and r = "[]" and S = demo_settings
      and P = demo_pwa] a b c
  show ?thesis by simp
qed

end
